theory Spec2Isabelle
  imports Main "HOL-Library.Multiset"
begin

section \<open>The guestbook service of app.py\<close>

text \<open>
  The program is three request handlers (\<open>index\<close>, \<open>submit\<close>, \<open>health\<close>) and a start-up
  function (\<open>init_db\<close>), each a straight line of calls on the MySQL driver inside a
  \<open>try\<close>. The handlers are modelled as functions from the world before the request to the
  response and the world after it. The world holds what the calls change: the
  \<open>messages\<close> table, the rows of the open transaction, the cursors opened and not yet
  closed, the calls made on the driver, and what was printed. What the handler cannot
  decide (the clock of the server and whether a call on the driver raises) is the
  environment of the request.
\<close>

subsection \<open>The store\<close>

text \<open>
  The table of the \<open>CREATE TABLE\<close> statement: \<open>id INT AUTO_INCREMENT PRIMARY KEY\<close>,
  \<open>message TEXT NOT NULL\<close>, \<open>created_at TIMESTAMP DEFAULT CURRENT_TIMESTAMP\<close>
  (a timestamp counts whole seconds). The rows are kept in the order of their insertion.
\<close>

record row =
  row_id :: nat
  message :: string
  created_at :: nat

record table =
  rows :: "row list"
  auto_increment :: nat

text \<open>The four SQL statements of the source.\<close>

datatype statement =
    Create_table_messages
  | Select_messages
  | Insert_message string
  | Select_1

text \<open>The exceptions a handler can meet, each with the text that \<open>str\<close> gives.\<close>

datatype exn =
    OperationalError string
  | ProgrammingError string
  | BadRequest string
  | AttributeError string

fun str :: "exn \<Rightarrow> string" where
  "str (OperationalError s) = s"
| "str (ProgrammingError s) = s"
| "str (BadRequest s) = s"
| "str (AttributeError s) = s"

datatype call = Connection | Cursor | Execute statement | Commit | Fetchall | Close

record world =
  messages_table :: "table option"
  uncommitted :: "row list"
  open_cursors :: nat
  store_calls :: "call list"
  stdout :: "string list"

text \<open>
  The environment of one request: the server's clock, and for each call that reaches
  the server the exception it raises, if any.
\<close>

record env =
  now :: nat
  connection_error :: "exn option"
  execute_error :: "exn option"
  commit_error :: "exn option"

definition no_such_table :: exn where
  "no_such_table = ProgrammingError ''(1146, Table flask_db.messages does not exist)''"

text \<open>
  \<open>mysql.connection\<close>: the connection of this request. It is a new session, so the rows
  an earlier request inserted and never committed are gone (rolled back when its
  connection was closed).
\<close>

definition connection :: "env \<Rightarrow> world \<Rightarrow> (exn + unit) \<times> world" where
  "connection e w =
     (let w' = w\<lparr>store_calls := store_calls w @ [Connection], uncommitted := []\<rparr>
      in case connection_error e of
           Some x \<Rightarrow> (Inl x, w')
         | None \<Rightarrow> (Inr (), w'))"

definition cursor :: "world \<Rightarrow> world" where
  "cursor w = w\<lparr>store_calls := store_calls w @ [Cursor], open_cursors := Suc (open_cursors w)\<rparr>"

text \<open>
  \<open>ORDER BY created_at DESC\<close>. SQL leaves the order of rows with equal keys to the
  store; here they keep the order of the table (a stable sort).
\<close>

definition order_by_created_at_desc :: "row list \<Rightarrow> row list" where
  "order_by_created_at_desc rs = sort_key (\<lambda>r. - int (created_at r)) rs"

text \<open>
  \<open>cur.execute\<close>. The result is the list of values the statement selects (one column in
  every statement of the source). \<open>CREATE TABLE IF NOT EXISTS\<close> takes effect at once;
  an \<open>INSERT\<close> takes the next \<open>id\<close> and the clock's time and joins the open transaction.
  A statement on the table fails when the table does not exist; any other failure is
  the environment's.
\<close>

definition execute :: "env \<Rightarrow> statement \<Rightarrow> world \<Rightarrow> (exn + string list) \<times> world" where
  "execute e s w =
     (let w' = w\<lparr>store_calls := store_calls w @ [Execute s]\<rparr>
      in case execute_error e of
           Some x \<Rightarrow> (Inl x, w')
         | None \<Rightarrow>
            (case s of
               Select_1 \<Rightarrow> (Inr [''1''], w')
             | Create_table_messages \<Rightarrow>
                (case messages_table w' of
                   None \<Rightarrow> (Inr [], w'\<lparr>messages_table := Some \<lparr>rows = [], auto_increment = 1\<rparr>\<rparr>)
                 | Some t \<Rightarrow> (Inr [], w'))
             | Select_messages \<Rightarrow>
                (case messages_table w' of
                   None \<Rightarrow> (Inl no_such_table, w')
                 | Some t \<Rightarrow>
                    (Inr (map message
                           (take 50 (order_by_created_at_desc (rows t @ uncommitted w')))), w'))
             | Insert_message m \<Rightarrow>
                (case messages_table w' of
                   None \<Rightarrow> (Inl no_such_table, w')
                 | Some t \<Rightarrow>
                    (Inr [],
                     w'\<lparr>messages_table := Some (t\<lparr>auto_increment := Suc (auto_increment t)\<rparr>),
                        uncommitted := uncommitted w' @
                          [\<lparr>row_id = auto_increment t, message = m, created_at = now e\<rparr>]\<rparr>))))"

text \<open>\<open>mysql.connection.commit()\<close>: the rows of the open transaction join the table.\<close>

definition commit :: "env \<Rightarrow> world \<Rightarrow> (exn + unit) \<times> world" where
  "commit e w =
     (let w' = w\<lparr>store_calls := store_calls w @ [Commit]\<rparr>
      in case commit_error e of
           Some x \<Rightarrow> (Inl x, w')
         | None \<Rightarrow>
            (Inr (),
             w'\<lparr>messages_table :=
                  map_option (\<lambda>t. t\<lparr>rows := rows t @ uncommitted w'\<rparr>) (messages_table w'),
                uncommitted := []\<rparr>))"

text \<open>
  \<open>cur.fetchall()\<close> and \<open>cur.close()\<close> work on the result the driver already holds and
  do not raise.
\<close>

definition fetchall :: "string list \<Rightarrow> world \<Rightarrow> string list \<times> world" where
  "fetchall result w = (result, w\<lparr>store_calls := store_calls w @ [Fetchall]\<rparr>)"

definition close :: "world \<Rightarrow> world" where
  "close w = w\<lparr>store_calls := store_calls w @ [Close], open_cursors := open_cursors w - 1\<rparr>"

definition print :: "string \<Rightarrow> world \<Rightarrow> world" where
  "print s w = w\<lparr>stdout := stdout w @ [s]\<rparr>"

subsection \<open>Requests and responses\<close>

text \<open>
  A value of a JSON field: \<open>null\<close> or a string (the interface of \<open>/submit\<close> is
  \<open>{new_message: string}\<close>). The body of a request that declares JSON either does not
  parse, or parses to something that is not an object (a list, a string, a number,
  \<open>null\<close>), or parses to an object. A form is the list of its fields in order.
\<close>

datatype jvalue = JNull | JStr string

datatype json_body = Unparseable | Non_object | Object "string \<rightharpoonup> jvalue"

datatype request = Json_request json_body | Form_request "(string \<times> string) list"

datatype body = Page "string list" | Json "(string \<times> string) list"

type_synonym response = "body \<times> nat"

text \<open>
  Modelled from the spec: the template \<open>templates/index.html\<close> is not among the sources;
  the rendered page is the page containing the list it is given.
\<close>

definition render_template :: "string list \<Rightarrow> body" where
  "render_template messages = Page messages"

definition jsonify :: "(string \<times> string) list \<Rightarrow> body" where
  "jsonify d = Json d"

text \<open>
  Lines 51 to 54 of \<open>submit\<close>: \<open>request.json.get('new_message')\<close> when the request is
  JSON, \<open>request.form.get('new_message')\<close> otherwise. \<open>request.json\<close> raises when the body
  does not parse; \<open>.get\<close> raises on a value that is not a dict; a \<open>null\<close> field is
  Python's \<open>None\<close>, as an absent one is.
\<close>

fun get_new_message :: "request \<Rightarrow> exn + string option" where
  "get_new_message (Json_request Unparseable) =
     Inl (BadRequest ''400 Bad Request: Failed to decode JSON object'')"
| "get_new_message (Json_request Non_object) =
     Inl (AttributeError ''object has no attribute get'')"
| "get_new_message (Json_request (Object d)) =
     (case d ''new_message'' of
        None \<Rightarrow> Inr None
      | Some JNull \<Rightarrow> Inr None
      | Some (JStr s) \<Rightarrow> Inr (Some s))"
| "get_new_message (Form_request f) = Inr (map_of f ''new_message'')"

subsection \<open>The handlers\<close>

text \<open>
  Each handler is a \<open>try\<close> block and its \<open>except\<close> clause. The \<open>try\<close> block either
  returns a response or raises; in both cases the world is the one the calls made so
  far have left. The \<open>except\<close> clause goes on from that world.
\<close>

definition index_try :: "env \<Rightarrow> world \<Rightarrow> (exn + response) \<times> world" where
  "index_try e w =
     (case connection e w of
        (Inl x, w1) \<Rightarrow> (Inl x, w1)
      | (Inr _, w1) \<Rightarrow>
         (case execute e Select_messages (cursor w1) of
            (Inl x, w2) \<Rightarrow> (Inl x, w2)
          | (Inr result, w2) \<Rightarrow>
             (case fetchall result w2 of
                (messages, w3) \<Rightarrow> (Inr (render_template messages, 200), close w3))))"

definition index :: "env \<Rightarrow> world \<Rightarrow> response \<times> world" where
  "index e w =
     (case index_try e w of
        (Inr response, w') \<Rightarrow> (response, w')
      | (Inl x, w') \<Rightarrow>
         ((render_template [], 200), print (''Error fetching messages: '' @ str x) w'))"

definition submit_try :: "env \<Rightarrow> request \<Rightarrow> world \<Rightarrow> (exn + response) \<times> world" where
  "submit_try e r w =
     (case get_new_message r of
        Inl x \<Rightarrow> (Inl x, w)
      | Inr None \<Rightarrow> (Inr (jsonify [(''error'', ''Message is required'')], 400), w)
      | Inr (Some new_message) \<Rightarrow>
         if new_message = [] then (Inr (jsonify [(''error'', ''Message is required'')], 400), w)
         else
          (case connection e w of
             (Inl x, w1) \<Rightarrow> (Inl x, w1)
           | (Inr _, w1) \<Rightarrow>
              (case execute e (Insert_message new_message) (cursor w1) of
                 (Inl x, w2) \<Rightarrow> (Inl x, w2)
               | (Inr _, w2) \<Rightarrow>
                  (case commit e w2 of
                     (Inl x, w3) \<Rightarrow> (Inl x, w3)
                   | (Inr _, w3) \<Rightarrow>
                      (Inr (jsonify [(''message'', new_message), (''status'', ''success'')],
                            200),
                       close w3)))))"

definition submit :: "env \<Rightarrow> request \<Rightarrow> world \<Rightarrow> response \<times> world" where
  "submit e r w =
     (case submit_try e r w of
        (Inr response, w') \<Rightarrow> (response, w')
      | (Inl x, w') \<Rightarrow>
         ((jsonify [(''error'', ''Failed to submit message'')], 500),
          print (''Error submitting message: '' @ str x) w'))"

definition health_try :: "env \<Rightarrow> world \<Rightarrow> (exn + response) \<times> world" where
  "health_try e w =
     (case connection e w of
        (Inl x, w1) \<Rightarrow> (Inl x, w1)
      | (Inr _, w1) \<Rightarrow>
         (case execute e Select_1 (cursor w1) of
            (Inl x, w2) \<Rightarrow> (Inl x, w2)
          | (Inr _, w2) \<Rightarrow>
             (Inr (jsonify [(''status'', ''healthy''), (''database'', ''connected'')], 200),
              close w2)))"

definition health :: "env \<Rightarrow> world \<Rightarrow> response \<times> world" where
  "health e w =
     (case health_try e w of
        (Inr response, w') \<Rightarrow> (response, w')
      | (Inl x, w') \<Rightarrow>
         ((jsonify [(''status'', ''unhealthy''), (''database'', ''disconnected'')], 500), w'))"

text \<open>
  \<open>init_db\<close> returns nothing; its result is the world it leaves. The two marks it prints
  are written as their UTF-8 bytes.
\<close>

definition init_db_try :: "env \<Rightarrow> world \<Rightarrow> (exn + unit) \<times> world" where
  "init_db_try e w =
     (case connection e w of
        (Inl x, w1) \<Rightarrow> (Inl x, w1)
      | (Inr _, w1) \<Rightarrow>
         (case execute e Create_table_messages (cursor w1) of
            (Inl x, w2) \<Rightarrow> (Inl x, w2)
          | (Inr _, w2) \<Rightarrow>
             (case commit e w2 of
                (Inl x, w3) \<Rightarrow> (Inl x, w3)
              | (Inr _, w3) \<Rightarrow>
                 (Inr (),
                  print ([CHR 0xE2, CHR 0x9C, CHR 0x85] @ '' Database initialized successfully'')
                    (close w3)))))"

definition init_db :: "env \<Rightarrow> world \<Rightarrow> world" where
  "init_db e w =
     (case init_db_try e w of
        (Inr _, w') \<Rightarrow> w'
      | (Inl x, w') \<Rightarrow>
         print ([CHR 0xE2, CHR 0x9D, CHR 0x8C] @ '' Database initialization error: '' @ str x) w')"

subsection \<open>Environments, worlds and requests to run the handlers on\<close>

text \<open>An environment in which no call raises, at time \<open>t\<close>.\<close>

definition calm :: "nat \<Rightarrow> env" where
  "calm t = \<lparr>now = t, connection_error = None, execute_error = None, commit_error = None\<rparr>"

text \<open>The world before \<open>init_db\<close> has run: no table yet.\<close>

definition fresh_world :: world where
  "fresh_world =
     \<lparr>messages_table = None, uncommitted = [], open_cursors = 0, store_calls = [], stdout = []\<rparr>"

text \<open>A world whose table holds the given rows.\<close>

definition world_with :: "row list \<Rightarrow> nat \<Rightarrow> world" where
  "world_with rs n =
     \<lparr>messages_table = Some \<lparr>rows = rs, auto_increment = n\<rparr>, uncommitted = [],
      open_cursors = 0, store_calls = [], stdout = []\<rparr>"

definition form_with :: "string \<Rightarrow> request" where
  "form_with m = Form_request [(''new_message'', m)]"

definition json_with :: "string \<Rightarrow> request" where
  "json_with m = Json_request (Object [''new_message'' \<mapsto> JStr m])"

text \<open>
  One \<open>POST /submit\<close> of the form field \<open>new_message = m\<close>, served at time \<open>t\<close> with no call
  raising; and a sequence of them, served one after the other.
\<close>

fun post :: "nat \<times> string \<Rightarrow> world \<Rightarrow> world" where
  "post (t, m) w = snd (submit (calm t) (form_with m) w)"

definition post_all :: "(nat \<times> string) list \<Rightarrow> world \<Rightarrow> world" where
  "post_all ps w = fold post ps w"

text \<open>The rows that a sequence of successful inserts adds, the first with \<open>id = n\<close>.\<close>

fun inserted :: "nat \<Rightarrow> (nat \<times> string) list \<Rightarrow> row list" where
  "inserted n [] = []"
| "inserted n ((t, m) # ps) = \<lparr>row_id = n, message = m, created_at = t\<rparr> # inserted (Suc n) ps"

text \<open>Sixty distinct messages: the \<open>i\<close>-th is \<open>i + 1\<close> letters long.\<close>

definition nth_message :: "nat \<Rightarrow> string" where
  "nth_message i = replicate (Suc i) (CHR ''m'')"

text \<open>The \<open>i\<close>-th of them posted within the second \<open>t\<close>, and posted at the second \<open>t + i\<close>.\<close>

definition within_second :: "nat \<Rightarrow> nat \<Rightarrow> nat \<times> string" where
  "within_second t i = (t, nth_message i)"

definition one_a_second :: "nat \<Rightarrow> nat \<Rightarrow> nat \<times> string" where
  "one_a_second t i = (t + i, nth_message i)"

section \<open>Properties\<close>

subsection \<open>The store calls and the order of the listing\<close>

lemmas store_defs = connection_def cursor_def execute_def commit_def fetchall_def close_def
  print_def render_template_def jsonify_def

lemma order_by_snoc:
  "\<forall>r\<in>set rs. created_at r < created_at x \<Longrightarrow>
   order_by_created_at_desc (rs @ [x]) = x # order_by_created_at_desc rs"
  unfolding order_by_created_at_desc_def
  by (induction rs) auto

lemma order_by_append_increasing:
  "sorted_wrt (<) (map created_at ns) \<Longrightarrow>
   \<forall>r\<in>set rs. \<forall>n\<in>set ns. created_at r < created_at n \<Longrightarrow>
   order_by_created_at_desc (rs @ ns) = rev ns @ order_by_created_at_desc rs"
proof (induction ns rule: rev_induct)
  case Nil
  then show ?case by simp
next
  case (snoc n ns)
  from snoc.prems(1) have inc: "sorted_wrt (<) (map created_at ns)"
    and last: "\<forall>r\<in>set ns. created_at r < created_at n"
    by (auto simp: sorted_wrt_append)
  from snoc.prems(2) last have "\<forall>r\<in>set (rs @ ns). created_at r < created_at n"
    by auto
  then have "order_by_created_at_desc ((rs @ ns) @ [n]) = n # order_by_created_at_desc (rs @ ns)"
    by (rule order_by_snoc)
  moreover have "order_by_created_at_desc (rs @ ns) = rev ns @ order_by_created_at_desc rs"
    using snoc.IH inc snoc.prems(2) by auto
  ultimately show ?case by simp
qed

lemma order_by_sorted:
  "sorted_wrt (\<lambda>a b. created_at b \<le> created_at a) (order_by_created_at_desc rs)"
proof -
  have "sorted (map (\<lambda>r. - int (created_at r)) (order_by_created_at_desc rs))"
    unfolding order_by_created_at_desc_def by (rule sorted_sort_key)
  then show ?thesis
    by (simp add: sorted_map sorted_wrt_iff_nth_less)
qed

lemma order_by_mset: "mset (order_by_created_at_desc rs) = mset rs"
  by (simp add: order_by_created_at_desc_def)

lemma order_by_ties:
  "\<forall>r\<in>set rs. created_at r = t \<Longrightarrow> order_by_created_at_desc rs = rs"
  unfolding order_by_created_at_desc_def
  by (rule sort_key_id_if_sorted) (simp add: sorted_map sorted_wrt_iff_nth_less)

lemma index_listing:
  assumes "connection_error e = None" and "execute_error e = None"
    and "messages_table w = Some t"
  shows "fst (index e w) = (Page (map message (take 50 (order_by_created_at_desc (rows t)))), 200)"
  using assms by (simp add: index_def index_try_def store_defs)

lemma index_at_most_50: "\<exists>ms. fst (index e w) = (Page ms, 200) \<and> length ms \<le> 50"
  by (auto simp: index_def index_try_def store_defs Let_def split: option.splits)

lemma submit_success:
  assumes "get_new_message r = Inr (Some m)" and "m \<noteq> []"
    and "connection_error e = None" and "execute_error e = None" and "commit_error e = None"
    and "messages_table w = Some t"
  shows "submit e r w =
     ((Json [(''message'', m), (''status'', ''success'')], 200),
      w\<lparr>messages_table := Some \<lparr>rows = rows t @
             [\<lparr>row_id = auto_increment t, message = m, created_at = now e\<rparr>],
           auto_increment = Suc (auto_increment t)\<rparr>,
        uncommitted := [],
        store_calls := store_calls w @
          [Connection, Cursor, Execute (Insert_message m), Commit, Close]\<rparr>)"
  using assms by (simp add: submit_def submit_try_def store_defs)

lemma post_table:
  assumes "messages_table w = Some t" and "m \<noteq> []"
  shows "messages_table (post (tm, m) w) =
     Some \<lparr>rows = rows t @ [\<lparr>row_id = auto_increment t, message = m, created_at = tm\<rparr>],
           auto_increment = Suc (auto_increment t)\<rparr>"
  using assms by (simp add: submit_success [where t = t] form_with_def calm_def)

lemma post_all_table:
  "messages_table w = Some t \<Longrightarrow> \<forall>p\<in>set ps. snd p \<noteq> [] \<Longrightarrow>
   messages_table (post_all ps w) =
     Some \<lparr>rows = rows t @ inserted (auto_increment t) ps,
           auto_increment = auto_increment t + length ps\<rparr>"
proof (induction ps arbitrary: w t)
  case Nil
  then show ?case by (simp add: post_all_def)
next
  case (Cons p ps)
  obtain tm m where p: "p = (tm, m)" by (cases p)
  with Cons.prems have m: "m \<noteq> []" by simp
  have step: "messages_table (post p w) =
     Some \<lparr>rows = rows t @ [\<lparr>row_id = auto_increment t, message = m, created_at = tm\<rparr>],
           auto_increment = Suc (auto_increment t)\<rparr>"
    unfolding p using Cons.prems(1) m by (rule post_table)
  have "messages_table (post_all ps (post p w)) =
     Some \<lparr>rows = (rows t @ [\<lparr>row_id = auto_increment t, message = m, created_at = tm\<rparr>])
                    @ inserted (Suc (auto_increment t)) ps,
           auto_increment = Suc (auto_increment t) + length ps\<rparr>"
    using Cons.IH [OF step] Cons.prems(2) by simp
  then show ?case by (simp add: post_all_def p)
qed

lemma created_at_inserted: "map created_at (inserted n ps) = map fst ps"
  by (induction n ps rule: inserted.induct) auto

lemma message_inserted: "map message (inserted n ps) = map snd ps"
  by (induction n ps rule: inserted.induct) auto

lemma set_inserted: "r \<in> set (inserted n ps) \<Longrightarrow> created_at r \<in> fst ` set ps"
  by (induction n ps rule: inserted.induct) auto

lemma length_inserted: "length (inserted n ps) = length ps"
  by (induction n ps rule: inserted.induct) auto

lemma index_after_posts:
  assumes "messages_table w = Some t" and "\<forall>p\<in>set ps. snd p \<noteq> []"
    and "sorted_wrt (<) (map fst ps)"
    and "\<forall>old\<in>set (rows t). \<forall>p\<in>set ps. created_at old < fst p"
    and "connection_error e = None" and "execute_error e = None"
  shows "fst (index e (post_all ps w)) =
     (Page (take 50 (rev (map snd ps) @ map message (order_by_created_at_desc (rows t)))), 200)"
proof -
  let ?new = "inserted (auto_increment t) ps"
  have table: "messages_table (post_all ps w) =
      Some \<lparr>rows = rows t @ ?new, auto_increment = auto_increment t + length ps\<rparr>"
    using assms(1,2) by (rule post_all_table)
  have "sorted_wrt (<) (map created_at ?new)"
    using assms(3) by (simp add: created_at_inserted)
  moreover have "\<forall>old\<in>set (rows t). \<forall>n\<in>set ?new. created_at old < created_at n"
    using assms(4) by (fastforce dest: set_inserted)
  ultimately have "order_by_created_at_desc (rows t @ ?new) =
      rev ?new @ order_by_created_at_desc (rows t)"
    by (rule order_by_append_increasing)
  then have "map message (take 50 (order_by_created_at_desc (rows t @ ?new))) =
      take 50 (rev (map snd ps) @ map message (order_by_created_at_desc (rows t)))"
    by (simp add: take_map [symmetric] rev_map [symmetric] message_inserted length_inserted)
  then show ?thesis
    using table assms(5,6) by (simp add: index_listing)
qed

lemma index_after_burst:
  assumes "\<forall>p\<in>set ps. snd p \<noteq> [] \<and> fst p = t"
    and "connection_error e = None" and "execute_error e = None"
  shows "fst (index e (post_all ps (world_with [] 1))) = (Page (take 50 (map snd ps)), 200)"
proof -
  have table: "messages_table (post_all ps (world_with [] 1)) =
      Some \<lparr>rows = [] @ inserted 1 ps, auto_increment = 1 + length ps\<rparr>"
    using post_all_table [of "world_with [] 1" "\<lparr>rows = [], auto_increment = 1\<rparr>" ps] assms(1)
    by (simp add: world_with_def)
  have "order_by_created_at_desc (inserted 1 ps) = inserted 1 ps"
    by (rule order_by_ties [where t = t]) (use assms(1) in \<open>fastforce dest: set_inserted\<close>)
  then show ?thesis
    using table assms(2,3) by (simp add: index_listing take_map [symmetric] message_inserted)
qed

lemma one_a_second_increasing: "sorted_wrt (<) (map fst (map (one_a_second t) [0..<n]))"
  by (simp add: sorted_wrt_map one_a_second_def sorted_wrt_iff_nth_less)

lemma index_try_raises:
  "(\<exists>x. fst (index_try e w) = Inl x) \<longleftrightarrow>
     connection_error e \<noteq> None \<or> execute_error e \<noteq> None \<or> messages_table w = None"
  by (auto simp: index_try_def store_defs Let_def split: option.splits)

lemma init_db_table:
  "messages_table (init_db e w) =
     (if connection_error e = None \<and> execute_error e = None
      then (case messages_table w of
              None \<Rightarrow> Some \<lparr>rows = [], auto_increment = 1\<rparr>
            | Some t \<Rightarrow> Some t)
      else messages_table w)"
  by (auto simp: init_db_def init_db_try_def store_defs Let_def split: option.splits)

text \<open>
  On the path where the \<open>try\<close> block returns, every handler has closed the cursor it
  opened.
\<close>

lemma cursor_closed_on_success:
  "(\<forall>resp. fst (index_try e w) = Inr resp \<longrightarrow> open_cursors (snd (index e w)) = open_cursors w) \<and>
   (\<forall>resp. fst (submit_try e r w) = Inr resp \<longrightarrow> open_cursors (snd (submit e r w)) = open_cursors w) \<and>
   (\<forall>resp. fst (health_try e w) = Inr resp \<longrightarrow> open_cursors (snd (health e w)) = open_cursors w)"
  by (auto simp: index_def index_try_def submit_def submit_try_def health_def health_try_def
      store_defs Let_def split: option.splits sum.splits if_splits)

subsection \<open>Submit, then list\<close>

text \<open>
  Claim C1 says that for every store state, submitting \<open>new_message = "hello"\<close> and then
  listing returns a list whose first element is \<open>hello\<close>. It fails in two ways. Where the
  table does not exist the insert raises and the listing is empty. Where a row was
  stored within the same second, the two rows have the same \<open>created_at\<close> and the
  \<open>ORDER BY\<close> does not put the new one first.
\<close>

theorem submit_then_list_counterexample:
  "fst (index (calm 1) (snd (submit (calm 0) (form_with ''hello'') fresh_world))) = (Page [], 200) \<and>
   fst (index (calm 8) (snd (submit (calm 7) (form_with ''hello'')
          (world_with [\<lparr>row_id = 1, message = ''first'', created_at = 7\<rparr>] 2))))
     = (Page [''first'', ''hello''], 200)"
  by (simp add: index_def index_try_def submit_def submit_try_def store_defs calm_def
      form_with_def fresh_world_def world_with_def no_such_table_def
      order_by_created_at_desc_def)

text \<open>
  Claim C1 as amended: when the submit of a non-empty message succeeds (the table
  exists and no call raises), every row already stored has a \<open>created_at\<close> strictly
  earlier than the time of the insert, and the listing's query succeeds, the list
  starts with the submitted message, followed by the 49 most recent of the rows stored
  before.
\<close>

theorem submit_then_list:
  assumes "get_new_message r = Inr (Some m)" and "m \<noteq> []"
    and "connection_error e1 = None" and "execute_error e1 = None" and "commit_error e1 = None"
    and "messages_table w = Some t"
    and "\<forall>old\<in>set (rows t). created_at old < now e1"
    and "connection_error e2 = None" and "execute_error e2 = None"
  shows "fst (index e2 (snd (submit e1 r w))) =
           (Page (m # take 49 (map message (order_by_created_at_desc (rows t)))), 200)"
proof -
  let ?new = "\<lparr>row_id = auto_increment t, message = m, created_at = now e1\<rparr>"
  let ?t' = "\<lparr>rows = rows t @ [?new], auto_increment = Suc (auto_increment t)\<rparr>"
  have "messages_table (snd (submit e1 r w)) = Some ?t'"
    using assms(1-6) by (simp add: submit_success [where t = t])
  then have "fst (index e2 (snd (submit e1 r w))) =
      (Page (map message (take 50 (order_by_created_at_desc (rows ?t')))), 200)"
    using assms(8,9) by (simp add: index_listing)
  moreover have "order_by_created_at_desc (rows t @ [?new]) = ?new # order_by_created_at_desc (rows t)"
    by (rule order_by_snoc) (use assms(7) in simp)
  ultimately show ?thesis by (simp add: take_map)
qed

theorem submit_then_list_witness:
  "fst (index (calm 9) (snd (submit (calm 8) (json_with ''hello'')
          (world_with [\<lparr>row_id = 1, message = ''first'', created_at = 7\<rparr>] 2))))
     = (Page [''hello'', ''first''], 200)"
  using submit_then_list [of "json_with ''hello''" "''hello''" "calm 8"
      "world_with [\<lparr>row_id = 1, message = ''first'', created_at = 7\<rparr>] 2"
      "\<lparr>rows = [\<lparr>row_id = 1, message = ''first'', created_at = 7\<rparr>], auto_increment = 2\<rparr>"
      "calm 9"]
  by (simp add: json_with_def calm_def world_with_def order_by_created_at_desc_def)

subsection \<open>The listing\<close>

text \<open>
  Claim C2 says that the listing holds at most 50 messages in descending order of
  \<open>created_at\<close>, and that after 60 inserts it holds exactly the 50 most recently inserted,
  the most recent first. The second part fails when inserts share a second: here all 60
  are stored within second 7, every order of them is descending in \<open>created_at\<close>, and the
  listing is the 50 oldest, the oldest first.
\<close>

theorem list_recent_counterexample:
  "fst (index (calm 8) (post_all (map (within_second 7) [0..<60]) (world_with [] 1))) =
     (Page (map nth_message [0..<50]), 200) \<and>
   map nth_message [0..<50] \<noteq> rev (drop 10 (map nth_message [0..<60]))"
proof
  have "fst (index (calm 8) (post_all (map (within_second 7) [0..<60]) (world_with [] 1))) =
      (Page (take 50 (map snd (map (within_second 7) [0..<60]))), 200)"
    by (rule index_after_burst [where t = 7])
      (simp_all add: within_second_def nth_message_def calm_def)
  moreover have "take 50 (map snd (map (within_second 7) [0..<60])) = map nth_message [0..<50]"
    by (simp add: take_map within_second_def comp_def)
  ultimately show "fst (index (calm 8)
      (post_all (map (within_second 7) [0..<60]) (world_with [] 1))) =
      (Page (map nth_message [0..<50]), 200)"
    by simp
next
  have "hd (map nth_message [0..<50]) = nth_message 0"
    by (simp add: hd_map upt_rec [of 0 50])
  moreover have "hd (rev (drop 10 (map nth_message [0..<60]))) = nth_message 59"
    by (simp add: hd_rev drop_map last_map)
  moreover have "length (nth_message 0) \<noteq> length (nth_message 59)"
    by (simp add: nth_message_def)
  ultimately show "map nth_message [0..<50] \<noteq> rev (drop 10 (map nth_message [0..<60]))"
    by metis
qed

text \<open>
  Claim C2 as amended. The listing always holds at most 50 messages; when the query
  succeeds they are the messages of the first 50 rows of the table sorted by
  \<open>created_at\<close> descending (a sorted rearrangement of all its rows). After 60 successful
  inserts of non-empty messages whose times are strictly increasing and later than
  every row stored before, the listing holds exactly 50 messages: the last 50 inserted,
  the most recent first.
\<close>

theorem list_recent:
  "(\<exists>ms. fst (index e w) = (Page ms, 200) \<and> length ms \<le> 50) \<and>
   (connection_error e = None \<and> execute_error e = None \<and> messages_table w = Some t \<longrightarrow>
      fst (index e w) = (Page (map message (take 50 (order_by_created_at_desc (rows t)))), 200) \<and>
      sorted_wrt (\<lambda>a b. created_at b \<le> created_at a) (order_by_created_at_desc (rows t)) \<and>
      mset (order_by_created_at_desc (rows t)) = mset (rows t)) \<and>
   (connection_error e = None \<and> execute_error e = None \<and> messages_table w = Some t \<and>
    length ps = 60 \<and> (\<forall>p\<in>set ps. snd p \<noteq> []) \<and> sorted_wrt (<) (map fst ps) \<and>
    (\<forall>old\<in>set (rows t). \<forall>p\<in>set ps. created_at old < fst p) \<longrightarrow>
      fst (index e (post_all ps w)) = (Page (rev (drop 10 (map snd ps))), 200) \<and>
      length (rev (drop 10 (map snd ps))) = 50)"
proof (intro conjI impI)
  show "\<exists>ms. fst (index e w) = (Page ms, 200) \<and> length ms \<le> 50"
    by (rule index_at_most_50)
next
  assume "connection_error e = None \<and> execute_error e = None \<and> messages_table w = Some t"
  then show "fst (index e w) =
      (Page (map message (take 50 (order_by_created_at_desc (rows t)))), 200)"
    by (simp add: index_listing)
next
  show "sorted_wrt (\<lambda>a b. created_at b \<le> created_at a) (order_by_created_at_desc (rows t))"
    by (rule order_by_sorted)
next
  show "mset (order_by_created_at_desc (rows t)) = mset (rows t)"
    by (rule order_by_mset)
next
  assume a: "connection_error e = None \<and> execute_error e = None \<and> messages_table w = Some t \<and>
    length ps = 60 \<and> (\<forall>p\<in>set ps. snd p \<noteq> []) \<and> sorted_wrt (<) (map fst ps) \<and>
    (\<forall>old\<in>set (rows t). \<forall>p\<in>set ps. created_at old < fst p)"
  then have "fst (index e (post_all ps w)) =
     (Page (take 50 (rev (map snd ps) @ map message (order_by_created_at_desc (rows t)))), 200)"
    by (intro index_after_posts) auto
  moreover have "take 50 (rev (map snd ps)) = rev (drop 10 (map snd ps))"
    using a by (simp add: take_rev)
  ultimately show "fst (index e (post_all ps w)) = (Page (rev (drop 10 (map snd ps))), 200)"
    using a by simp
next
  assume "connection_error e = None \<and> execute_error e = None \<and> messages_table w = Some t \<and>
    length ps = 60 \<and> (\<forall>p\<in>set ps. snd p \<noteq> []) \<and> sorted_wrt (<) (map fst ps) \<and>
    (\<forall>old\<in>set (rows t). \<forall>p\<in>set ps. created_at old < fst p)"
  then show "length (rev (drop 10 (map snd ps))) = 50" by simp
qed

theorem list_recent_witness:
  "fst (index (calm 99) (post_all (map (one_a_second 7) [0..<60]) (world_with [] 1))) =
     (Page (rev (drop 10 (map snd (map (one_a_second 7) [0..<60])))), 200) \<and>
   length (rev (drop 10 (map snd (map (one_a_second 7) [0..<60])))) = 50"
  using list_recent [of "calm 99" "world_with [] 1" "\<lparr>rows = [], auto_increment = 1\<rparr>"
      "map (one_a_second 7) [0..<60]"] one_a_second_increasing [of 7 60]
  by (simp add: calm_def world_with_def one_a_second_def nth_message_def)

subsection \<open>Submit\<close>

text \<open>
  Claim C3 says that every submit whose \<open>new_message\<close> field is absent or empty is
  answered 400. A request that declares JSON and whose body parses to something that is
  not an object (\<open>null\<close>, a list, a string, a number) has no \<open>new_message\<close> field, but
  \<open>request.json.get\<close> raises on it before the check: the answer is 500 with the fixed
  error of the \<open>except\<close> clause. No call is made on the store and no row is created.
\<close>

theorem submit_rejects_missing_message_counterexample:
  "submit (calm 3) (Json_request Non_object) (world_with [] 1) =
     ((Json [(''error'', ''Failed to submit message'')], 500),
      \<lparr>messages_table = Some \<lparr>rows = [], auto_increment = 1\<rparr>, uncommitted = [],
       open_cursors = 0, store_calls = [],
       stdout = [''Error submitting message: object has no attribute get'']\<rparr>)"
  by (simp add: submit_def submit_try_def store_defs world_with_def)

text \<open>
  Claim C3 as amended: a submit whose body is a form or a JSON object and whose
  \<open>new_message\<close> field is absent or empty (in a JSON object a \<open>null\<close> field counts as
  absent) is answered 400 with the error \<open>Message is required\<close>; the world is unchanged,
  so no call was made on the store, no row was created, and a listing afterwards is
  what it would have been before.
\<close>

theorem submit_rejects_missing_message:
  assumes "r = Json_request (Object d) \<and>
             (d ''new_message'' = None \<or> d ''new_message'' = Some JNull \<or>
              d ''new_message'' = Some (JStr ''''))
           \<or> r = Form_request f \<and>
             (map_of f ''new_message'' = None \<or> map_of f ''new_message'' = Some '''')"
  shows "submit e r w = ((Json [(''error'', ''Message is required'')], 400), w) \<and>
         store_calls (snd (submit e r w)) = store_calls w \<and>
         messages_table (snd (submit e r w)) = messages_table w \<and>
         index e' (snd (submit e r w)) = index e' w"
  using assms by (auto simp: submit_def submit_try_def store_defs)

theorem submit_rejects_missing_message_witness:
  "submit (calm 3) (Json_request (Object Map.empty)) (world_with [] 1) =
     ((Json [(''error'', ''Message is required'')], 400), world_with [] 1) \<and>
   submit (calm 3) (form_with '''') (world_with [] 1) =
     ((Json [(''error'', ''Message is required'')], 400), world_with [] 1)"
  using submit_rejects_missing_message [where r = "Json_request (Object Map.empty)"
      and d = Map.empty and e = "calm 3" and w = "world_with [] 1"]
    submit_rejects_missing_message [where r = "form_with ''''"
      and f = "[(''new_message'', '''')]" and e = "calm 3" and w = "world_with [] 1"]
  by (simp add: form_with_def)

text \<open>
  Claim C4 says that a submit with a non-empty message and a reachable store inserts
  one row and is answered 200. A reachable store is not enough: where the table does
  not exist the \<open>INSERT\<close> raises and the answer is 500.
\<close>

theorem submit_missing_table_counterexample:
  "connection_error (calm 0) = None \<and>
   get_new_message (form_with ''hello'') = Inr (Some ''hello'') \<and>
   submit (calm 0) (form_with ''hello'') fresh_world =
     ((Json [(''error'', ''Failed to submit message'')], 500),
      \<lparr>messages_table = None, uncommitted = [], open_cursors = 1,
       store_calls = [Connection, Cursor, Execute (Insert_message ''hello'')],
       stdout = [''Error submitting message: (1146, Table flask_db.messages does not exist)'']\<rparr>)"
  by (simp add: submit_def submit_try_def store_defs calm_def form_with_def fresh_world_def
      no_such_table_def)

text \<open>
  Claim C4 as amended: a submit with a non-empty message, when the store is reachable,
  the table exists and neither the \<open>INSERT\<close> nor the commit raises, adds exactly one row
  at the end of the table, with the table's next \<open>id\<close> and the server's time as
  \<open>created_at\<close>, and is answered 200 with the message and \<open>status = success\<close>.
\<close>

theorem submit_inserts_one_row:
  assumes "get_new_message r = Inr (Some m)" and "m \<noteq> []"
    and "connection_error e = None" and "execute_error e = None" and "commit_error e = None"
    and "messages_table w = Some t"
  shows "fst (submit e r w) = (Json [(''message'', m), (''status'', ''success'')], 200) \<and>
         messages_table (snd (submit e r w)) =
           Some \<lparr>rows = rows t @ [\<lparr>row_id = auto_increment t, message = m, created_at = now e\<rparr>],
                 auto_increment = Suc (auto_increment t)\<rparr>"
  using assms by (simp add: submit_success [where t = t])

theorem submit_inserts_one_row_witness:
  "fst (submit (calm 5) (form_with ''hello'') (world_with [] 1)) =
     (Json [(''message'', ''hello''), (''status'', ''success'')], 200) \<and>
   messages_table (snd (submit (calm 5) (form_with ''hello'') (world_with [] 1))) =
     Some \<lparr>rows = [\<lparr>row_id = 1, message = ''hello'', created_at = 5\<rparr>], auto_increment = 2\<rparr>"
  using submit_inserts_one_row [of "form_with ''hello''" "''hello''" "calm 5" "world_with [] 1"
      "\<lparr>rows = [], auto_increment = 1\<rparr>"]
  by (simp add: form_with_def calm_def world_with_def)



text \<open>
  Claim C10: a submit that declares JSON and whose body does not parse is answered 500
  with the fixed error, not 400: the exception of the parser reaches the same \<open>except\<close>
  clause as a failure of the store. No call is made on the store and the table is
  unchanged.
\<close>

theorem submit_unparseable_json:
  "fst (submit e (Json_request Unparseable) w) =
     (Json [(''error'', ''Failed to submit message'')], 500) \<and>
   messages_table (snd (submit e (Json_request Unparseable) w)) = messages_table w \<and>
   store_calls (snd (submit e (Json_request Unparseable) w)) = store_calls w"
  by (simp add: submit_def submit_try_def store_defs)

theorem submit_unparseable_json_witness:
  "fst (submit (calm 3) (Json_request Unparseable) (world_with [] 1)) =
     (Json [(''error'', ''Failed to submit message'')], 500) \<and>
   messages_table (snd (submit (calm 3) (Json_request Unparseable) (world_with [] 1))) =
     Some \<lparr>rows = [], auto_increment = 1\<rparr>"
  using submit_unparseable_json [of "calm 3" "world_with [] 1"]
  by (simp add: world_with_def)

subsection \<open>The cursor\<close>

text \<open>
  Claim C5 says that every handler releases its cursor on the success path and on the
  failure path. Each handler calls \<open>cur.close()\<close> as the last statement of its \<open>try\<close>
  block only, so an exception raised after \<open>cursor()\<close> skips it: with no table, after
  \<open>index\<close> and after \<open>submit\<close> one cursor is open, and so it is after \<open>health\<close> when
  \<open>SELECT 1\<close> raises.
\<close>

theorem cursor_left_open_on_error:
  "open_cursors fresh_world = 0 \<and>
   open_cursors (snd (index (calm 0) fresh_world)) = 1 \<and>
   open_cursors (snd (submit (calm 0) (form_with ''hello'') fresh_world)) = 1 \<and>
   open_cursors (snd (health ((calm 0)\<lparr>execute_error := Some (OperationalError ''(2013, Lost connection)'')\<rparr>)
                        fresh_world)) = 1"
  by (simp add: index_def index_try_def submit_def submit_try_def health_def health_try_def
      store_defs calm_def form_with_def fresh_world_def)

subsection \<open>Errors of the store in the listing and in the health check\<close>

text \<open>
  Claim C6: whatever the store raises during the listing (at the connection, at the
  \<open>SELECT\<close>, also because the table does not exist), \<open>index\<close> answers 200 with the page
  of the empty list. The status of \<open>index\<close> is 200 in every case.
\<close>

theorem index_survives_store_error:
  "snd (fst (index e w)) = 200 \<and>
   (connection_error e \<noteq> None \<or> execute_error e \<noteq> None \<or> messages_table w = None
      \<longrightarrow> (\<exists>x. fst (index_try e w) = Inl x) \<and> fst (index e w) = (Page [], 200)) \<and>
   (\<forall>x. fst (index_try e w) = Inl x \<longrightarrow> fst (index e w) = (Page [], 200))"
  by (auto simp: index_def index_try_def store_defs Let_def split: option.splits)

theorem index_survives_store_error_witness:
  "fst (index (calm 3) fresh_world) = (Page [], 200) \<and>
   fst (index ((calm 3)\<lparr>connection_error := Some (OperationalError ''(2002, Cannot connect)'')\<rparr>)
          (world_with [\<lparr>row_id = 1, message = ''first'', created_at = 2\<rparr>] 2)) = (Page [], 200)"
  using index_survives_store_error [of "calm 3" fresh_world]
    index_survives_store_error
      [of "(calm 3)\<lparr>connection_error := Some (OperationalError ''(2002, Cannot connect)'')\<rparr>"
        "world_with [\<lparr>row_id = 1, message = ''first'', created_at = 2\<rparr>] 2"]
  by (simp add: calm_def fresh_world_def)

text \<open>
  Claim C7: \<open>health\<close> answers 200 with \<open>status = healthy\<close> and \<open>database = connected\<close>
  exactly when the connection and \<open>SELECT 1\<close> succeed, and 500 with \<open>status = unhealthy\<close>
  and \<open>database = disconnected\<close> otherwise, the same answer for every exception.
\<close>

theorem health_reports_store:
  "fst (health e w) =
     (if connection_error e = None \<and> execute_error e = None
      then (Json [(''status'', ''healthy''), (''database'', ''connected'')], 200)
      else (Json [(''status'', ''unhealthy''), (''database'', ''disconnected'')], 500))"
  by (auto simp: health_def health_try_def store_defs Let_def split: option.splits)

theorem health_reports_store_witness:
  "fst (health (calm 3) fresh_world) =
     (Json [(''status'', ''healthy''), (''database'', ''connected'')], 200) \<and>
   fst (health ((calm 3)\<lparr>connection_error := Some (OperationalError ''(2002, Cannot connect)'')\<rparr>)
          fresh_world) =
     (Json [(''status'', ''unhealthy''), (''database'', ''disconnected'')], 500) \<and>
   fst (health ((calm 3)\<lparr>execute_error := Some (ProgrammingError ''(1064, Syntax error)'')\<rparr>)
          fresh_world) =
     (Json [(''status'', ''unhealthy''), (''database'', ''disconnected'')], 500)"
  using health_reports_store [of "calm 3" fresh_world]
    health_reports_store
      [of "(calm 3)\<lparr>connection_error := Some (OperationalError ''(2002, Cannot connect)'')\<rparr>"
        fresh_world]
    health_reports_store
      [of "(calm 3)\<lparr>execute_error := Some (ProgrammingError ''(1064, Syntax error)'')\<rparr>"
        fresh_world]
  by (simp add: calm_def)

subsection \<open>Schema initialization\<close>

text \<open>
  Claim C9: \<open>init_db\<close> is idempotent. A table that exists, with its rows, is still there
  unchanged after two invocations, whatever the calls raise; the table that the first
  invocation leaves is the table that the second leaves; when the connection and the
  \<open>CREATE TABLE\<close> of the first invocation succeed there is a table afterwards, the same
  after two invocations as after one, and it is the empty table of the statement when
  there was none before. (The store holds at most one table named \<open>messages\<close>, and its
  columns are the fields of \<open>row\<close>.)
\<close>

theorem init_db_idempotent:
  "(\<forall>t. messages_table w = Some t \<longrightarrow> messages_table (init_db e2 (init_db e1 w)) = Some t) \<and>
   (\<forall>t. messages_table (init_db e1 w) = Some t \<longrightarrow>
        messages_table (init_db e2 (init_db e1 w)) = Some t) \<and>
   (connection_error e1 = None \<and> execute_error e1 = None \<longrightarrow>
      (\<exists>t. messages_table (init_db e1 w) = Some t) \<and>
      messages_table (init_db e2 (init_db e1 w)) = messages_table (init_db e1 w)) \<and>
   (connection_error e1 = None \<and> execute_error e1 = None \<and> messages_table w = None \<longrightarrow>
      messages_table (init_db e1 w) = Some \<lparr>rows = [], auto_increment = 1\<rparr>)"
  by (auto simp: init_db_table split: option.splits)

theorem init_db_idempotent_witness:
  "messages_table (init_db (calm 1) (init_db (calm 0) fresh_world)) =
     Some \<lparr>rows = [], auto_increment = 1\<rparr> \<and>
   messages_table (init_db (calm 0) fresh_world) = Some \<lparr>rows = [], auto_increment = 1\<rparr> \<and>
   messages_table (init_db (calm 1) (init_db (calm 0)
       (world_with [\<lparr>row_id = 1, message = ''first'', created_at = 7\<rparr>] 2))) =
     Some \<lparr>rows = [\<lparr>row_id = 1, message = ''first'', created_at = 7\<rparr>], auto_increment = 2\<rparr>"
  using init_db_idempotent [of fresh_world "calm 1" "calm 0"]
    init_db_idempotent [of "world_with [\<lparr>row_id = 1, message = ''first'', created_at = 7\<rparr>] 2"
      "calm 1" "calm 0"]
  by (simp add: calm_def fresh_world_def world_with_def)

end
